theory Spec2Isabelle
  imports Main "HOL-Library.Sublist"
begin

section \<open>Strings\<close>

text \<open>
  A Python \<open>str\<close> is a sequence of Unicode code points, so it is modelled as a list of
  code points. The literals of \<open>test21.py\<close> are written out code point by code point;
  their ASCII parts are written with \<open>ascii\<close>.
\<close>

type_synonym ustr = "nat list"

definition ascii :: "string \<Rightarrow> ustr" where
  "ascii s = map of_char s"

text \<open>Decimal rendering of \<open>int\<close> values, as \<open>str\<close> and the f-string do it.\<close>

fun str_nat :: "nat \<Rightarrow> ustr" where
  "str_nat n = (if n < 10 then [48 + n] else str_nat (n div 10) @ [48 + n mod 10])"

declare str_nat.simps [simp del]

definition str_int :: "int \<Rightarrow> ustr" where
  "str_int i = (if i < 0 then 0x2D # str_nat (nat (- i)) else str_nat (nat i))"

text \<open>
  \<open>str.strip()\<close> without arguments removes leading and trailing whitespace; these are
  the code points for which \<open>str.isspace\<close> holds.
\<close>

definition py_isspace :: "nat \<Rightarrow> bool" where
  "py_isspace c = (c \<in> set [0x9, 0xA, 0xB, 0xC, 0xD, 0x1C, 0x1D, 0x1E, 0x1F, 0x20, 0x85, 0xA0,
     0x1680, 0x2000, 0x2001, 0x2002, 0x2003, 0x2004, 0x2005, 0x2006, 0x2007, 0x2008, 0x2009,
     0x200A, 0x2028, 0x2029, 0x202F, 0x205F, 0x3000])"

definition strip :: "ustr \<Rightarrow> ustr" where
  "strip s = rev (dropWhile py_isspace (rev (dropWhile py_isspace s)))"

text \<open>\<open>sep.join(xs)\<close>.\<close>

fun join :: "ustr \<Rightarrow> ustr list \<Rightarrow> ustr" where
  "join sep [] = []"
| "join sep [x] = x"
| "join sep (x # y # ys) = x @ sep @ join sep (y # ys)"

section \<open>JSON values, exceptions and the HTTP client\<close>

text \<open>
  The value \<open>r.json()\<close> returns. Floating point is not modelled: a float is a value of
  an opaque type \<open>'f\<close>, rendered and converted by the runtime (see \<open>world\<close>). A JSON
  object is the list of the items of the parsed \<open>dict\<close>.
\<close>

datatype 'f json =
    JNull
  | JBool bool
  | JInt int
  | JFloat 'f
  | JStr ustr
  | JArr "'f json list"
  | JObj "(ustr \<times> 'f json) list"

text \<open>
  The exceptions that can arise in \<open>get_weather\<close> and at start-up. All of them but
  \<open>HTTPError\<close> are handled by the clause \<open>except Exception\<close>. \<open>RequestException\<close>
  stands for what \<open>requests.get\<close> itself raises (connection errors, timeouts, too many
  redirects, ...): the library raises \<open>HTTPError\<close> in \<open>raise_for_status\<close> only.
  \<open>TimestampError\<close> stands for the \<open>OverflowError\<close>, \<open>OSError\<close> or \<open>ValueError\<close> of
  \<open>datetime.fromtimestamp\<close>. \<open>KeyError\<close> carries the \<open>repr\<close> of the key.
  \<open>TelegramError\<close> stands for what sending a chat message raises (a request the chat
  platform rejects, a network failure). Interrupts of the process
  (\<open>KeyboardInterrupt\<close>, \<open>SystemExit\<close>) are not modelled.
\<close>

datatype py_exn =
    HTTPError ustr
  | RequestException ustr
  | JSONDecodeError
  | KeyError ustr
  | IndexError
  | TypeError
  | AttributeError
  | TimestampError
  | UnboundLocalError
  | ValueError ustr
  | TelegramError ustr

record http_request =
  http_method :: string
  url :: ustr
  params :: "(string \<times> ustr) list"

text \<open>
  A response of the server, as \<open>requests.get\<close> returns it: its status, its reason
  phrase, the URL it came from, and what \<open>r.json()\<close> makes of its body, \<open>None\<close> when
  \<open>r.json()\<close> raises because the body is not a JSON document.
\<close>

record 'f response =
  status_code :: nat
  reason :: ustr
  final_url :: ustr
  body :: "'f json option"

datatype 'f get_outcome =
    Raised ustr
  | Returned "'f response"

datatype level = INFO | ERROR

record keyboard =
  buttons :: "ustr list list"
  resize_keyboard :: bool
  one_time_keyboard :: bool

record reply =
  reply_body :: ustr
  parse_mode :: string
  reply_markup :: "keyboard option"

text \<open>
  What the program does not decide: the server's answer to a request, the local time
  zone (\<open>utcoffset t\<close>, in seconds, at the instant \<open>t\<close>), whether the platform converts
  a timestamp, the runtime's renderings of floats, containers and interpreter error
  messages, what \<open>int\<close> makes of a string (\<open>None\<close> when it raises), and what becomes of
  a chat message that is sent: \<open>send_error m = None\<close> when the chat platform delivers
  \<open>m\<close>, and the text of the error that the send raises otherwise.
\<close>

record 'f world =
  server :: "http_request \<Rightarrow> 'f get_outcome"
  utcoffset :: "int \<Rightarrow> int"
  localtime_ok :: "int \<Rightarrow> bool"
  float_seconds :: "'f \<Rightarrow> int option"
  float_repr :: "'f \<Rightarrow> ustr"
  container_repr :: "'f json \<Rightarrow> ustr"
  interp_text :: "py_exn \<Rightarrow> ustr"
  parse_int :: "ustr \<Rightarrow> int option"
  send_error :: "reply \<Rightarrow> ustr option"

text \<open>
  The effects of the program: the HTTP requests sent, the log records emitted, the chat
  replies sent, the threads started, and the framework's per-user session dictionaries.
\<close>

record state =
  http_sent :: "http_request list"
  logs :: "(level \<times> ustr) list"
  chat_out :: "reply list"
  flask_started :: bool
  sessions :: "int \<Rightarrow> (string \<rightharpoonup> ustr)"

definition sbind :: "'e + 'a \<Rightarrow> ('a \<Rightarrow> 'e + 'b) \<Rightarrow> 'e + 'b" where
  "sbind m f = (case m of Inl e \<Rightarrow> Inl e | Inr x \<Rightarrow> f x)"

definition logger_error :: "ustr \<Rightarrow> state \<Rightarrow> state" where
  "logger_error m st = st\<lparr>logs := logs st @ [(ERROR, m)]\<rparr>"

definition logger_info :: "ustr \<Rightarrow> state \<Rightarrow> state" where
  "logger_info m st = st\<lparr>logs := logs st @ [(INFO, m)]\<rparr>"

text \<open>\<open>str(e)\<close>, as \<open>{e}\<close> in an f-string renders an exception.\<close>

definition exn_str :: "'f world \<Rightarrow> py_exn \<Rightarrow> ustr" where
  "exn_str W e = (case e of
       HTTPError m \<Rightarrow> m
     | RequestException m \<Rightarrow> m
     | KeyError k \<Rightarrow> k
     | ValueError m \<Rightarrow> m
     | TelegramError m \<Rightarrow> m
     | _ \<Rightarrow> interp_text W e)"

text \<open>
  \<open>Response.raise_for_status\<close> of the requests library: it builds \<open>http_error_msg\<close>
  for a status from 400 to 499 and for a status from 500 to 599, and raises an
  \<open>HTTPError\<close> carrying it when it is not empty. Every other status passes.
\<close>

definition http_error_msg :: "'f response \<Rightarrow> ustr" where
  "http_error_msg r =
     (if 400 \<le> status_code r \<and> status_code r < 500
      then str_nat (status_code r) @ ascii '' Client Error: '' @ reason r
             @ ascii '' for url: '' @ final_url r
      else if 500 \<le> status_code r \<and> status_code r < 600
      then str_nat (status_code r) @ ascii '' Server Error: '' @ reason r
             @ ascii '' for url: '' @ final_url r
      else [])"

definition raise_for_status :: "'f response \<Rightarrow> py_exn + unit" where
  "raise_for_status r =
     (if http_error_msg r \<noteq> [] then Inl (HTTPError (http_error_msg r)) else Inr ())"

definition response_json :: "'f response \<Rightarrow> py_exn + 'f json" where
  "response_json r = (case body r of None \<Rightarrow> Inl JSONDecodeError | Some j \<Rightarrow> Inr j)"

text \<open>\<open>v[k]\<close> for a string key, \<open>v[0]\<close>, and \<open>v.get(k, default)\<close>.\<close>

definition repr_key :: "string \<Rightarrow> ustr" where
  "repr_key k = [0x27] @ ascii k @ [0x27]"

fun getitem :: "'f json \<Rightarrow> string \<Rightarrow> py_exn + 'f json" where
  "getitem (JObj kvs) k =
     (case map_of kvs (ascii k) of None \<Rightarrow> Inl (KeyError (repr_key k)) | Some v \<Rightarrow> Inr v)"
| "getitem _ k = Inl TypeError"

fun getitem0 :: "'f json \<Rightarrow> py_exn + 'f json" where
  "getitem0 (JArr []) = Inl IndexError"
| "getitem0 (JArr (x # xs)) = Inr x"
| "getitem0 (JStr []) = Inl IndexError"
| "getitem0 (JStr (c # cs)) = Inr (JStr [c])"
| "getitem0 (JObj kvs) = Inl (KeyError (ascii ''0''))"
| "getitem0 _ = Inl TypeError"

fun dict_get :: "'f json \<Rightarrow> string \<Rightarrow> 'f json \<Rightarrow> py_exn + 'f json" where
  "dict_get (JObj kvs) k d = (case map_of kvs (ascii k) of None \<Rightarrow> Inr d | Some v \<Rightarrow> Inr v)"
| "dict_get _ k d = Inl AttributeError"

text \<open>How an f-string renders a value: \<open>format(v, "")\<close>.\<close>

fun format_value :: "'f world \<Rightarrow> 'f json \<Rightarrow> ustr" where
  "format_value W (JStr s) = s"
| "format_value W (JInt i) = str_int i"
| "format_value W (JBool b) = (if b then ascii ''True'' else ascii ''False'')"
| "format_value W JNull = ascii ''None''"
| "format_value W (JFloat x) = float_repr W x"
| "format_value W (JArr xs) = container_repr W (JArr xs)"
| "format_value W (JObj kvs) = container_repr W (JObj kvs)"

text \<open>
  \<open>datetime.fromtimestamp(ts)\<close>: the timestamp must be a number (a \<open>bool\<close> is an
  \<open>int\<close> in Python); the result is the local time, kept as seconds since the epoch
  shifted by the zone's offset. \<open>strftime("%H:%M")\<close> prints hour and minute with two
  digits each.
\<close>

fun timestamp_seconds :: "'f world \<Rightarrow> 'f json \<Rightarrow> py_exn + int" where
  "timestamp_seconds W (JInt t) = Inr t"
| "timestamp_seconds W (JBool b) = Inr (if b then 1 else 0)"
| "timestamp_seconds W (JFloat x) =
     (case float_seconds W x of None \<Rightarrow> Inl TimestampError | Some t \<Rightarrow> Inr t)"
| "timestamp_seconds W _ = Inl TypeError"

definition fromtimestamp :: "'f world \<Rightarrow> 'f json \<Rightarrow> py_exn + int" where
  "fromtimestamp W ts =
     sbind (timestamp_seconds W ts)
       (\<lambda>t. if localtime_ok W t then Inr (t + utcoffset W t) else Inl TimestampError)"

definition two_digits :: "nat \<Rightarrow> ustr" where
  "two_digits n = [48 + n div 10, 48 + n mod 10]"

definition hour_of :: "int \<Rightarrow> nat" where
  "hour_of l = nat ((l div 3600) mod 24)"

definition minute_of :: "int \<Rightarrow> nat" where
  "minute_of l = nat ((l div 60) mod 60)"

definition strftime_HM :: "int \<Rightarrow> ustr" where
  "strftime_HM l = two_digits (hour_of l) @ [0x3A] @ two_digits (minute_of l)"

section \<open>The weather lookup\<close>

text \<open>The literals of \<open>get_weather\<close> (lines 78 to 100), in Russian in the source.\<close>

definition no_data :: ustr where
  "no_data = [0x43D, 0x2F, 0x434]"

definition weather_in :: ustr where
  "weather_in = [0x1F324] @ ascii '' <b>'' @ [0x41F, 0x43E, 0x433, 0x43E, 0x434, 0x430, 0x20,
     0x432, 0x20]"

definition description_label :: ustr where
  "description_label = ascii ''</b>'' @ [0xA, 0x41E, 0x43F, 0x438, 0x441, 0x430, 0x43D, 0x438,
     0x435, 0x3A, 0x20]"

definition temperature_label :: ustr where
  "temperature_label = [0xA, 0x422, 0x435, 0x43C, 0x43F, 0x435, 0x440, 0x430, 0x442, 0x443,
     0x440, 0x430, 0x3A, 0x20]"

definition humidity_label :: ustr where
  "humidity_label = [0x20, 0xB0, 0x43, 0xA, 0x412, 0x43B, 0x430, 0x436, 0x43D, 0x43E, 0x441,
     0x442, 0x44C, 0x3A, 0x20]"

definition pressure_label :: ustr where
  "pressure_label = [0x20, 0x25, 0xA, 0x414, 0x430, 0x432, 0x43B, 0x435, 0x43D, 0x438, 0x435,
     0x3A, 0x20]"

definition wind_label :: ustr where
  "wind_label = [0x20, 0x433, 0x41F, 0x430, 0xA, 0x421, 0x43A, 0x43E, 0x440, 0x43E, 0x441,
     0x442, 0x44C, 0x20, 0x432, 0x435, 0x442, 0x440, 0x430, 0x3A, 0x20]"

definition sunset_label :: ustr where
  "sunset_label = [0x20, 0x43C, 0x2F, 0x441, 0xA, 0x417, 0x430, 0x43A, 0x430, 0x442, 0x3A,
     0x20]"

definition city_not_found :: "ustr \<Rightarrow> ustr" where
  "city_not_found city = [0x274C, 0x20, 0x413, 0x43E, 0x440, 0x43E, 0x434, 0x20, 0x27] @ city
     @ [0x27, 0x20, 0x43D, 0x435, 0x20, 0x43D, 0x430, 0x439, 0x434, 0x435, 0x43D, 0x2E]"

definition api_error :: "ustr \<Rightarrow> ustr" where
  "api_error e = [0x274C, 0x20, 0x41E, 0x448, 0x438, 0x431, 0x43A, 0x430, 0x20]
     @ ascii ''API: '' @ e"

definition http_error_log :: "ustr \<Rightarrow> ustr \<Rightarrow> ustr" where
  "http_error_log city e = ascii ''HTTP '' @ [0x43E, 0x448, 0x438, 0x431, 0x43A, 0x430, 0x20,
     0x43F, 0x440, 0x438, 0x20, 0x437, 0x430, 0x43F, 0x440, 0x43E, 0x441, 0x435, 0x20, 0x43F,
     0x43E, 0x433, 0x43E, 0x434, 0x44B, 0x20, 0x434, 0x43B, 0x44F, 0x20] @ city @ ascii '': ''
     @ e"

definition unexpected_error :: "ustr \<Rightarrow> ustr" where
  "unexpected_error e = [0x274C, 0x20, 0x41F, 0x440, 0x43E, 0x438, 0x437, 0x43E, 0x448, 0x43B,
     0x430, 0x20, 0x43E, 0x448, 0x438, 0x431, 0x43A, 0x430, 0x3A, 0x20] @ e"

definition unexpected_error_log :: "ustr \<Rightarrow> ustr \<Rightarrow> ustr" where
  "unexpected_error_log city e = [0x41D, 0x435, 0x43E, 0x436, 0x438, 0x434, 0x430, 0x43D,
     0x43D, 0x430, 0x44F, 0x20, 0x43E, 0x448, 0x438, 0x431, 0x43A, 0x430, 0x20, 0x43F, 0x440,
     0x438, 0x20, 0x437, 0x430, 0x43F, 0x440, 0x43E, 0x441, 0x435, 0x20, 0x43F, 0x43E, 0x433,
     0x43E, 0x434, 0x44B, 0x20, 0x434, 0x43B, 0x44F, 0x20] @ city @ ascii '': '' @ e"

definition weather_url :: ustr where
  "weather_url = ascii ''https://api.openweathermap.org/data/2.5/weather''"

definition weather_request :: "ustr \<Rightarrow> ustr \<Rightarrow> http_request" where
  "weather_request API_KEY city =
     \<lparr>http_method = ''GET'', url = weather_url,
      params = [(''q'', city), (''appid'', API_KEY), (''units'', ascii ''metric''),
                (''lang'', ascii ''ru'')]\<rparr>"

text \<open>Lines 81 to 90: the f-string, with the sunset time printed by \<open>strftime\<close>.\<close>

definition format_weather ::
  "'f world \<Rightarrow> ustr \<Rightarrow> 'f json \<Rightarrow> 'f json \<Rightarrow> 'f json \<Rightarrow> 'f json \<Rightarrow> 'f json \<Rightarrow> int \<Rightarrow> ustr" where
  "format_weather W city description temp humidity pressure wind_speed sunset_time =
     weather_in @ city @ description_label @ format_value W description
     @ temperature_label @ format_value W temp
     @ humidity_label @ format_value W humidity
     @ pressure_label @ format_value W pressure
     @ wind_label @ format_value W wind_speed
     @ sunset_label @ strftime_HM sunset_time"

text \<open>Lines 73 to 91: the body of the \<open>try\<close> once \<open>r\<close> is bound.\<close>

definition weather_info :: "'f world \<Rightarrow> ustr \<Rightarrow> 'f response \<Rightarrow> py_exn + ustr" where
  "weather_info W city r =
     sbind (raise_for_status r) (\<lambda>_.
     sbind (response_json r) (\<lambda>data.
     sbind (sbind (sbind (getitem data ''weather'') getitem0)
              (\<lambda>w. getitem w ''description'')) (\<lambda>description.
     sbind (sbind (getitem data ''main'') (\<lambda>m. getitem m ''temp'')) (\<lambda>temp.
     sbind (sbind (getitem data ''main'') (\<lambda>m. getitem m ''humidity'')) (\<lambda>humidity.
     sbind (sbind (getitem data ''main'') (\<lambda>m. dict_get m ''grnd_level'' (JStr no_data)))
       (\<lambda>pressure.
     sbind (sbind (getitem data ''wind'') (\<lambda>w. getitem w ''speed'')) (\<lambda>wind_speed.
     sbind (sbind (getitem data ''sys'') (\<lambda>s. getitem s ''sunset'')) (\<lambda>sunset_timestamp.
     sbind (fromtimestamp W sunset_timestamp) (\<lambda>sunset_time.
     Inr (format_weather W city description temp humidity pressure wind_speed
            sunset_time))))))))))"

text \<open>
  Lines 92 to 100: the two \<open>except\<close> clauses. \<open>r\<close> is \<open>None\<close> when the exception came
  from \<open>requests.get\<close>, so that \<open>r\<close> was never bound: reading \<open>r.status_code\<close> then
  raises out of the handler.
\<close>

definition handle_exception ::
  "'f world \<Rightarrow> ustr \<Rightarrow> 'f response option \<Rightarrow> py_exn \<Rightarrow> state \<Rightarrow> (py_exn + ustr) \<times> state" where
  "handle_exception W city r e st =
     (case e of
        HTTPError m \<Rightarrow>
          (case r of
             None \<Rightarrow> (Inl UnboundLocalError, st)
           | Some r' \<Rightarrow>
               if status_code r' = 404 then (Inr (city_not_found city), st)
               else (Inr (api_error (exn_str W e)),
                     logger_error (http_error_log city (exn_str W e)) st))
      | _ \<Rightarrow> (Inr (unexpected_error (exn_str W e)),
              logger_error (unexpected_error_log city (exn_str W e)) st))"

definition get_weather :: "'f world \<Rightarrow> ustr \<Rightarrow> ustr \<Rightarrow> state \<Rightarrow> (py_exn + ustr) \<times> state" where
  "get_weather W API_KEY city st =
     (let req = weather_request API_KEY city;
          st1 = st\<lparr>http_sent := http_sent st @ [req]\<rparr>
      in case server W req of
           Raised m \<Rightarrow> handle_exception W city None (RequestException m) st1
         | Returned r \<Rightarrow>
             (case weather_info W city r of
                Inr info \<Rightarrow> (Inr info, st1)
              | Inl e \<Rightarrow> handle_exception W city (Some r) e st1))"

section \<open>The chat handlers\<close>

text \<open>
  An update as a handler receives it. \<open>message\<close> is the text of \<open>update.message\<close>, and
  \<open>None\<close> when \<open>update.message\<close> is \<open>None\<close>: the handlers are registered without a
  filter on the update type, so they are also called for an edited message or command,
  which the update carries as \<open>edited_message\<close>. \<open>user_id\<close> is the id of
  \<open>update.effective_user\<close>; \<open>kind\<close> and \<open>command_args\<close> are what the framework's
  filters and its command parser make of the update. The context of a handler call
  holds \<open>context.args\<close> and \<open>context.user_data\<close>, the session dictionary of the user.
\<close>

datatype update_kind = StartCommand | HelpCommand | WeatherCommand | TextMessage | Unhandled

record update =
  kind :: update_kind
  command_args :: "ustr list"
  message :: "ustr option"
  user_id :: int

record handler_context =
  args :: "ustr list"
  user_data :: "string \<rightharpoonup> ustr"

text \<open>
  \<open>await update.message.reply_text(text, parse_mode="HTML")\<close>: reading \<open>reply_text\<close> off
  \<open>update.message\<close> raises \<open>AttributeError\<close> when there is no message; otherwise the
  message is sent, and the send either delivers it or raises. No handler catches
  either exception.
\<close>

definition reply_text ::
  "'f world \<Rightarrow> update \<Rightarrow> ustr \<Rightarrow> keyboard option \<Rightarrow> state \<Rightarrow> (py_exn + unit) \<times> state" where
  "reply_text W upd t markup st =
     (case message upd of
        None \<Rightarrow> (Inl AttributeError, st)
      | Some _ \<Rightarrow>
          (let r = \<lparr>reply_body = t, parse_mode = ''HTML'', reply_markup = markup\<rparr> in
           case send_error W r of
             Some m \<Rightarrow> (Inl (TelegramError m), st)
           | None \<Rightarrow> (Inr (), st\<lparr>chat_out := chat_out st @ [r]\<rparr>)))"

definition DEFAULT_CITIES :: "ustr list" where
  "DEFAULT_CITIES =
     [[0x41C, 0x43E, 0x441, 0x43A, 0x432, 0x430],
      [0x421, 0x430, 0x43D, 0x43A, 0x442, 0x2D, 0x41F, 0x435, 0x442, 0x435, 0x440, 0x431,
       0x443, 0x440, 0x433],
      [0x421, 0x43E, 0x447, 0x438],
      [0x418, 0x433, 0x43E, 0x440, 0x430]]"

definition greeting :: ustr where
  "greeting = [0x41F, 0x440, 0x438, 0x432, 0x435, 0x442, 0x21, 0x20, 0x412, 0x44B, 0x431,
     0x435, 0x440, 0x438, 0x442, 0x435, 0x20, 0x433, 0x43E, 0x440, 0x43E, 0x434, 0x20, 0x438,
     0x437, 0x20, 0x441, 0x43F, 0x438, 0x441, 0x43A, 0x430, 0x20, 0x438, 0x43B, 0x438, 0x20,
     0x432, 0x432, 0x435, 0x434, 0x438, 0x442, 0x435, 0x20, 0x441, 0x432, 0x43E, 0x439, 0x3A]"

definition help_text :: ustr where
  "help_text = [0x1F916] @ ascii '' <b>'' @ [0x41F, 0x43E, 0x43C, 0x43E, 0x449, 0x43D, 0x438,
     0x43A, 0x20, 0x43F, 0x43E, 0x433, 0x43E, 0x434, 0x43D, 0x43E, 0x433, 0x43E, 0x20, 0x431,
     0x43E, 0x442, 0x430] @ ascii ''</b>'' @ [0xA, 0xA, 0x414, 0x43E, 0x441, 0x442, 0x443,
     0x43F, 0x43D, 0x44B, 0x435, 0x20, 0x43A, 0x43E, 0x43C, 0x430, 0x43D, 0x434, 0x44B, 0x3A,
     0xA] @ ascii ''/start '' @ [0x2014, 0x20, 0x43E, 0x442, 0x43A, 0x440, 0x44B, 0x442, 0x44C,
     0x20, 0x43A, 0x43B, 0x430, 0x432, 0x438, 0x430, 0x442, 0x443, 0x440, 0x443, 0x20, 0x441,
     0x20, 0x433, 0x43E, 0x440, 0x43E, 0x434, 0x430, 0x43C, 0x438, 0xA] @ ascii ''/help ''
     @ [0x2014, 0x20, 0x43F, 0x43E, 0x43A, 0x430, 0x437, 0x430, 0x442, 0x44C, 0x20, 0x44D,
     0x442, 0x443, 0x20, 0x441, 0x43F, 0x440, 0x430, 0x432, 0x43A, 0x443, 0xA]
     @ ascii ''/weather &lt;'' @ [0x433, 0x43E, 0x440, 0x43E, 0x434] @ ascii ''&gt; ''
     @ [0x2014, 0x20, 0x43F, 0x43E, 0x433, 0x43E, 0x434, 0x430, 0x20, 0x432, 0x20, 0x443,
     0x43A, 0x430, 0x437, 0x430, 0x43D, 0x43D, 0x43E, 0x43C, 0x20, 0x433, 0x43E, 0x440, 0x43E,
     0x434, 0x435, 0xA, 0xA, 0x412, 0x44B, 0x20, 0x442, 0x430, 0x43A, 0x436, 0x435, 0x20,
     0x43C, 0x43E, 0x436, 0x435, 0x442, 0x435, 0x20, 0x43F, 0x440, 0x43E, 0x441, 0x442, 0x43E,
     0x20, 0x43D, 0x430, 0x43F, 0x438, 0x441, 0x430, 0x442, 0x44C, 0x20, 0x43D, 0x430, 0x437,
     0x432, 0x430, 0x43D, 0x438, 0x435, 0x20, 0x433, 0x43E, 0x440, 0x43E, 0x434, 0x430, 0x2E,
     0xA, 0xA, 0x41F, 0x440, 0x438, 0x43C, 0x435, 0x440, 0x3A, 0xA] @ ascii ''/weather ''
     @ [0x41C, 0x43E, 0x441, 0x43A, 0x432, 0x430]"

definition specify_city :: ustr where
  "specify_city = [0x274C, 0x20, 0x423, 0x43A, 0x430, 0x436, 0x438, 0x442, 0x435, 0x20, 0x433,
     0x43E, 0x440, 0x43E, 0x434, 0x20, 0x43F, 0x43E, 0x441, 0x43B, 0x435, 0x20, 0x43A, 0x43E,
     0x43C, 0x430, 0x43D, 0x434, 0x44B, 0x20] @ ascii ''/weather''"

definition user_asked :: "int \<Rightarrow> ustr \<Rightarrow> ustr" where
  "user_asked uid city = [0x41F, 0x43E, 0x43B, 0x44C, 0x437, 0x43E, 0x432, 0x430, 0x442, 0x435,
     0x43B, 0x44C, 0x20] @ str_int uid @ [0x20, 0x437, 0x430, 0x43F, 0x440, 0x43E, 0x441,
     0x438, 0x43B, 0x20, 0x43F, 0x43E, 0x433, 0x43E, 0x434, 0x443, 0x20, 0x434, 0x43B, 0x44F,
     0x20] @ city"

type_synonym 'f handler =
  "'f world \<Rightarrow> ustr \<Rightarrow> update \<Rightarrow> handler_context \<Rightarrow> state
     \<Rightarrow> (py_exn + unit) \<times> handler_context \<times> state"

text \<open>Lines 103 to 113.\<close>

definition start :: "'f handler" where
  "start W API_KEY upd ctx st =
     (let keyboard = map (\<lambda>city. [city]) DEFAULT_CITIES;
          markup = \<lparr>buttons = keyboard, resize_keyboard = True, one_time_keyboard = False\<rparr>
      in case reply_text W upd greeting (Some markup) st of
           (res, st1) \<Rightarrow> (res, ctx, st1))"

text \<open>Lines 116 to 128.\<close>

definition help_command :: "'f handler" where
  "help_command W API_KEY upd ctx st =
     (case reply_text W upd help_text None st of (res, st1) \<Rightarrow> (res, ctx, st1))"

text \<open>
  Lines 131 to 140. The lookup of line 135 is made before line 136 reads
  \<open>update.message\<close>.
\<close>

definition weather :: "'f handler" where
  "weather W API_KEY upd ctx st =
     (if args ctx \<noteq> [] then
        (let city = join (ascii '' '') (args ctx) in
         case get_weather W API_KEY city st of
           (Inl e, st1) \<Rightarrow> (Inl e, ctx, st1)
         | (Inr info, st1) \<Rightarrow>
             (case reply_text W upd info None st1 of (res, st2) \<Rightarrow> (res, ctx, st2)))
      else (case reply_text W upd specify_city None st of (res, st1) \<Rightarrow> (res, ctx, st1)))"

text \<open>
  Lines 143 to 149. Line 145 reads \<open>update.message.text\<close> first; lines 148 and 149 are
  reached only when the reply of line 147 has not raised.
\<close>

definition handle_message :: "'f handler" where
  "handle_message W API_KEY upd ctx st =
     (case message upd of
        None \<Rightarrow> (Inl AttributeError, ctx, st)
      | Some t \<Rightarrow>
          (let city = strip t in
           case get_weather W API_KEY city st of
             (Inl e, st1) \<Rightarrow> (Inl e, ctx, st1)
           | (Inr info, st1) \<Rightarrow>
               (case reply_text W upd info None st1 of
                  (Inl e, st2) \<Rightarrow> (Inl e, ctx, st2)
                | (Inr u, st2) \<Rightarrow>
                    (let ctx2 = ctx\<lparr>user_data := (user_data ctx)(''last_city'' \<mapsto> city)\<rparr>;
                         st3 = logger_info (user_asked (user_id upd) city) st2
                     in (Inr (), ctx2, st3)))))"

section \<open>Start-up and the chat loop\<close>

text \<open>
  Line 19: \<open>load_dotenv()\<close> adds the variables of the \<open>.env\<close> file that the process
  environment does not have yet. Lines 36 to 42: both keys are read, and a key that is
  missing or empty stops the module with a \<open>ValueError\<close>.
\<close>

definition load_dotenv :: "(string \<rightharpoonup> ustr) \<Rightarrow> (string \<rightharpoonup> ustr) \<Rightarrow> (string \<rightharpoonup> ustr)" where
  "load_dotenv dotenv environ = dotenv ++ environ"

definition truthy :: "ustr option \<Rightarrow> bool" where
  "truthy v = (case v of None \<Rightarrow> False | Some s \<Rightarrow> s \<noteq> [])"

definition no_api_key :: ustr where
  "no_api_key = [0x41D, 0x435, 0x20, 0x43D, 0x430, 0x439, 0x434, 0x435, 0x43D, 0x20]
     @ ascii ''API_KEY '' @ [0x432, 0x20, 0x43F, 0x435, 0x440, 0x435, 0x43C, 0x435, 0x43D,
     0x43D, 0x44B, 0x445, 0x20, 0x43E, 0x43A, 0x440, 0x443, 0x436, 0x435, 0x43D, 0x438, 0x44F,
     0x20] @ ascii ''(.env)''"

definition no_tg_key :: ustr where
  "no_tg_key = [0x41D, 0x435, 0x20, 0x43D, 0x430, 0x439, 0x434, 0x435, 0x43D, 0x20]
     @ ascii ''TG_KEY '' @ [0x432, 0x20, 0x43F, 0x435, 0x440, 0x435, 0x43C, 0x435, 0x43D,
     0x43D, 0x44B, 0x445, 0x20, 0x43E, 0x43A, 0x440, 0x443, 0x436, 0x435, 0x43D, 0x438, 0x44F,
     0x20] @ ascii ''(.env)''"

record config =
  API_KEY_of :: ustr
  TG_KEY_of :: ustr

definition module_init :: "(string \<rightharpoonup> ustr) \<Rightarrow> (string \<rightharpoonup> ustr) \<Rightarrow> py_exn + config" where
  "module_init dotenv environ =
     (let env = load_dotenv dotenv environ;
          API_KEY = env ''API_KEY'';
          TG_KEY = env ''TG_KEY''
      in if \<not> truthy API_KEY then Inl (ValueError no_api_key)
         else if \<not> truthy TG_KEY then Inl (ValueError no_tg_key)
         else Inr \<lparr>API_KEY_of = the API_KEY, TG_KEY_of = the TG_KEY\<rparr>)"

text \<open>
  Lines 167 to 172: the handlers as \<open>main\<close> registers them. The framework calls the
  handler of the update's kind with the session dictionary of the update's user, keeps
  the dictionary the handler leaves, and goes on after a handler that raised.
\<close>

definition dispatch :: "'f world \<Rightarrow> ustr \<Rightarrow> update \<Rightarrow> state \<Rightarrow> state" where
  "dispatch W API_KEY upd st =
     (let ctx = \<lparr>args = command_args upd, user_data = sessions st (user_id upd)\<rparr>;
          out = (case kind upd of
                   StartCommand \<Rightarrow> start W API_KEY upd ctx st
                 | HelpCommand \<Rightarrow> help_command W API_KEY upd ctx st
                 | WeatherCommand \<Rightarrow> weather W API_KEY upd ctx st
                 | TextMessage \<Rightarrow> handle_message W API_KEY upd ctx st
                 | Unhandled \<Rightarrow> (Inr (), ctx, st));
          ctx2 = fst (snd out);
          st2 = snd (snd out)
      in st2\<lparr>sessions := (sessions st2)(user_id upd := user_data ctx2)\<rparr>)"

definition starting_bot :: ustr where
  "starting_bot = [0x417, 0x430, 0x43F, 0x443, 0x441, 0x43A, 0x20] @ ascii ''Telegram-''
     @ [0x431, 0x43E, 0x442, 0x430] @ ascii ''...''"

definition starting_flask :: "int \<Rightarrow> ustr" where
  "starting_flask port = [0x417, 0x430, 0x43F, 0x443, 0x441, 0x43A, 0x20] @ ascii ''Flask''
     @ [0x20, 0x43D, 0x430, 0x20, 0x43F, 0x43E, 0x440, 0x442, 0x443, 0x20] @ str_int port"

text \<open>
  Lines 152 to 156: \<open>run_flask\<close> reads the port (10000 when \<open>PORT\<close> is not set), logs
  it and serves the two health routes for the rest of the process; an unreadable
  \<open>PORT\<close> ends the thread before the log record.
\<close>

definition run_flask :: "'f world \<Rightarrow> (string \<rightharpoonup> ustr) \<Rightarrow> state \<Rightarrow> state" where
  "run_flask W env st =
     (case (case env ''PORT'' of None \<Rightarrow> Some 10000 | Some p \<Rightarrow> parse_int W p) of
        None \<Rightarrow> st
      | Some port \<Rightarrow> logger_info (starting_flask port) st)"

text \<open>
  Lines 159 to 175: \<open>main\<close> starts the Flask thread, logs, and polls. The thread runs
  beside the chat loop; its one log record is placed where the thread is started, the
  source fixing no order between it and the records of the main thread. The chat loop
  is run over the updates that arrive while the process lives.
\<close>

definition main ::
  "'f world \<Rightarrow> config \<Rightarrow> (string \<rightharpoonup> ustr) \<Rightarrow> update list \<Rightarrow> state \<Rightarrow> state" where
  "main W cfg env updates st =
     (let st1 = run_flask W env (st\<lparr>flask_started := True\<rparr>);
          st2 = logger_info starting_bot st1
      in foldl (\<lambda>s upd. dispatch W (API_KEY_of cfg) upd s) st2 updates)"

text \<open>The script: the module's top level, then \<open>main()\<close>.\<close>

definition program ::
  "'f world \<Rightarrow> (string \<rightharpoonup> ustr) \<Rightarrow> (string \<rightharpoonup> ustr) \<Rightarrow> update list \<Rightarrow> state
     \<Rightarrow> (py_exn + unit) \<times> state" where
  "program W dotenv environ updates st =
     (case module_init dotenv environ of
        Inl e \<Rightarrow> (Inl e, st)
      | Inr cfg \<Rightarrow> (Inr (), main W cfg (load_dotenv dotenv environ) updates st))"

section \<open>Concrete inputs\<close>

text \<open>
  Inputs on which the theorems below are instantiated: a world whose server gives one
  fixed outcome, whose time zone is three hours east of UTC and whose chat platform
  delivers every message; a city, a key, a well-formed weather document without
  \<open>grnd_level\<close>, the state before anything has happened, an update that carries a
  message and one that carries none.
\<close>

definition demo_world :: "unit get_outcome \<Rightarrow> unit world" where
  "demo_world out =
     \<lparr>server = (\<lambda>_. out), utcoffset = (\<lambda>_. 10800), localtime_ok = (\<lambda>_. True),
      float_seconds = (\<lambda>_. None), float_repr = (\<lambda>_. ascii ''0.0''),
      container_repr = (\<lambda>_. ascii ''[]''), interp_text = (\<lambda>_. ascii ''error''),
      parse_int = (\<lambda>_. None), send_error = (\<lambda>_. None)\<rparr>"

definition demo_response :: "nat \<Rightarrow> string \<Rightarrow> unit json option \<Rightarrow> unit response" where
  "demo_response code phrase b =
     \<lparr>status_code = code, reason = ascii phrase, final_url = weather_url, body = b\<rparr>"

definition sochi :: ustr where
  "sochi = [0x421, 0x43E, 0x447, 0x438]"

definition demo_key :: ustr where
  "demo_key = ascii ''secret''"

definition demo_weather :: "unit json" where
  "demo_weather =
     JObj [(ascii ''weather'', JArr [JObj [(ascii ''description'',
                                            JStr [0x44F, 0x441, 0x43D, 0x43E])]]),
           (ascii ''main'', JObj [(ascii ''temp'', JInt 21), (ascii ''humidity'', JInt 60)]),
           (ascii ''wind'', JObj [(ascii ''speed'', JInt 3)]),
           (ascii ''sys'', JObj [(ascii ''sunset'', JInt 1700000000)])]"

definition st0 :: state where
  "st0 = \<lparr>http_sent = [], logs = [], chat_out = [], flask_started = False,
          sessions = (\<lambda>_. Map.empty)\<rparr>"

definition demo_update :: "update_kind \<Rightarrow> ustr list \<Rightarrow> ustr \<Rightarrow> update" where
  "demo_update k as t = \<lparr>kind = k, command_args = as, message = Some t, user_id = 42\<rparr>"

definition demo_edited_update :: "update_kind \<Rightarrow> ustr list \<Rightarrow> update" where
  "demo_edited_update k as = \<lparr>kind = k, command_args = as, message = None, user_id = 42\<rparr>"

text \<open>
  Chat platforms that do not deliver everything: one rejects the message that quotes
  the text \<open>a<b\<close> (an unclosed tag under \<open>parse_mode="HTML"\<close>), one is out of reach.
\<close>

definition rejects_unclosed_tag :: "reply \<Rightarrow> ustr option" where
  "rejects_unclosed_tag r =
     (if reply_body r = city_not_found (ascii ''a<b'')
      then Some (ascii ''Bad Request: unsupported start tag'') else None)"

definition chat_down :: "reply \<Rightarrow> ustr option" where
  "chat_down r = Some (ascii ''Timed out'')"

definition demo_world_chat ::
  "unit get_outcome \<Rightarrow> (reply \<Rightarrow> ustr option) \<Rightarrow> unit world" where
  "demo_world_chat out chat = (demo_world out)\<lparr>send_error := chat\<rparr>"

section \<open>Auxiliary facts\<close>

lemma sbind_Inr [simp]: "sbind (Inr x) f = f x"
  by (simp add: sbind_def)

lemma sbind_Inl [simp]: "sbind (Inl e) f = Inl e"
  by (simp add: sbind_def)

lemma sbind_eq_Inl:
  "sbind m f = Inl e \<longleftrightarrow> m = Inl e \<or> (\<exists>x. m = Inr x \<and> f x = Inl e)"
  by (cases m) simp_all

text \<open>Only \<open>raise_for_status\<close> raises an \<open>HTTPError\<close>.\<close>

lemma getitem_not_HTTPError: "getitem j k \<noteq> Inl (HTTPError m)"
  by (cases j) (simp_all split: option.splits)

lemma getitem0_not_HTTPError: "getitem0 j \<noteq> Inl (HTTPError m)"
  by (cases j rule: getitem0.cases) simp_all

lemma dict_get_not_HTTPError: "dict_get j k d \<noteq> Inl (HTTPError m)"
  by (cases j) (simp_all split: option.splits)

lemma response_json_not_HTTPError: "response_json r \<noteq> Inl (HTTPError m)"
  by (simp add: response_json_def split: option.splits)

lemma timestamp_seconds_not_HTTPError: "timestamp_seconds W j \<noteq> Inl (HTTPError m)"
  by (cases j) (simp_all split: option.splits)

lemma fromtimestamp_not_HTTPError: "fromtimestamp W j \<noteq> Inl (HTTPError m)"
  by (simp add: fromtimestamp_def sbind_eq_Inl timestamp_seconds_not_HTTPError)

lemma weather_info_HTTPError:
  "weather_info W city r = Inl (HTTPError m) \<Longrightarrow> raise_for_status r = Inl (HTTPError m)"
  unfolding weather_info_def sbind_eq_Inl
  by (auto simp: getitem_not_HTTPError getitem0_not_HTTPError dict_get_not_HTTPError
      response_json_not_HTTPError fromtimestamp_not_HTTPError)

text \<open>
  The handler reads \<open>r\<close> only for an \<open>HTTPError\<close>, which \<open>requests.get\<close> does not raise,
  so \<open>r\<close> is bound whenever it is read.
\<close>

lemma get_weather_returns: "\<exists>s. fst (get_weather W k city st) = Inr s"
  by (auto simp: get_weather_def handle_exception_def Let_def
      split: get_outcome.splits sum.splits py_exn.splits option.splits)

lemma get_weather_http_sent:
  "http_sent (snd (get_weather W k city st)) = http_sent st @ [weather_request k city]"
  by (auto simp: get_weather_def handle_exception_def Let_def logger_error_def
      split: get_outcome.splits sum.splits py_exn.splits option.splits)

lemma get_weather_chat_out: "chat_out (snd (get_weather W k city st)) = chat_out st"
  by (auto simp: get_weather_def handle_exception_def Let_def logger_error_def
      split: get_outcome.splits sum.splits py_exn.splits option.splits)

lemma str_nat_not_empty: "str_nat n \<noteq> []"
  by (subst str_nat.simps) simp

lemma http_error_msg_empty:
  "http_error_msg r = [] \<longleftrightarrow> \<not> (400 \<le> status_code r \<and> status_code r < 600)"
  by (auto simp: http_error_msg_def str_nat_not_empty)

lemma sbind_eq_Inr:
  "sbind m f = Inr y \<longleftrightarrow> (\<exists>x. m = Inr x \<and> f x = Inr y)"
  by (cases m) simp_all

lemma weather_info_Inr:
  "weather_info W city r = Inr s \<Longrightarrow>
     \<exists>d t h p w l. s = format_weather W city d t h p w l"
  unfolding weather_info_def sbind_eq_Inr by blast

lemma weather_info_raise:
  "raise_for_status r = Inl e \<Longrightarrow> weather_info W city r = Inl e"
  by (simp add: weather_info_def)

lemma get_weather_http_error:
  assumes "server W (weather_request API_KEY city) = Returned r"
    and "400 \<le> status_code r" and "status_code r < 600"
  shows "get_weather W API_KEY city st =
     handle_exception W city (Some r) (HTTPError (http_error_msg r))
       (st\<lparr>http_sent := http_sent st @ [weather_request API_KEY city]\<rparr>)"
proof -
  have "raise_for_status r = Inl (HTTPError (http_error_msg r))"
    using assms(2,3) by (simp add: raise_for_status_def http_error_msg_empty)
  then have "weather_info W city r = Inl (HTTPError (http_error_msg r))"
    by (rule weather_info_raise)
  then show ?thesis using assms(1) by (simp add: get_weather_def)
qed

lemma sublist_prepend: "sublist xs ys \<Longrightarrow> sublist xs (ps @ ys)"
  by (metis append.assoc sublist_def)

lemma get_weather_cases: "\<exists>info st1. get_weather W k city st = (Inr info, st1)"
  using get_weather_returns [of W k city st] by (cases "get_weather W k city st") auto

lemma get_weather_sessions: "sessions (snd (get_weather W k city st)) = sessions st"
  by (auto simp: get_weather_def handle_exception_def Let_def logger_error_def
      split: get_outcome.splits sum.splits py_exn.splits option.splits)

lemma get_weather_404_result:
  assumes "server W (weather_request API_KEY city) = Returned r"
    and "status_code r = 404"
  shows "get_weather W API_KEY city st =
      (Inr (city_not_found city),
       st\<lparr>http_sent := http_sent st @ [weather_request API_KEY city]\<rparr>)"
  using assms by (simp add: get_weather_http_error handle_exception_def)

text \<open>The body of the \<open>try\<close> on a response that passes and has every field read.\<close>

lemma weather_info_ok:
  assumes "raise_for_status r = Inr ()"
    and "body r = Some (JObj data)"
    and "map_of data (ascii ''weather'') = Some (JArr (JObj w # ws))"
    and "map_of w (ascii ''description'') = Some description"
    and "map_of data (ascii ''main'') = Some (JObj m)"
    and "map_of m (ascii ''temp'') = Some temp"
    and "map_of m (ascii ''humidity'') = Some humidity"
    and "map_of data (ascii ''wind'') = Some (JObj wd)"
    and "map_of wd (ascii ''speed'') = Some wind_speed"
    and "map_of data (ascii ''sys'') = Some (JObj sy)"
    and "map_of sy (ascii ''sunset'') = Some sunset"
    and "timestamp_seconds W sunset = Inr t"
    and "localtime_ok W t"
  shows "weather_info W city r =
    Inr (format_weather W city description temp humidity
          (case map_of m (ascii ''grnd_level'') of None \<Rightarrow> JStr no_data | Some p \<Rightarrow> p)
          wind_speed (t + utcoffset W t))"
  using assms
  by (simp add: weather_info_def response_json_def fromtimestamp_def split: option.splits)

text \<open>
  \<open>strip\<close> removes whitespace at both ends and nothing else: the text is a run of
  whitespace, the stripped text, and a run of whitespace, and the stripped text neither
  starts nor ends with whitespace.
\<close>

lemma strip_decomposition:
  "s = takeWhile py_isspace s @ strip s
       @ rev (takeWhile py_isspace (rev (dropWhile py_isspace s)))"
proof -
  have "dropWhile py_isspace s
      = rev (takeWhile py_isspace (rev (dropWhile py_isspace s))
             @ dropWhile py_isspace (rev (dropWhile py_isspace s)))"
    by (metis rev_rev_ident takeWhile_dropWhile_id)
  then have "dropWhile py_isspace s
      = strip s @ rev (takeWhile py_isspace (rev (dropWhile py_isspace s)))"
    by (simp only: strip_def rev_append)
  then show ?thesis
    by (metis takeWhile_dropWhile_id)
qed

lemma strip_no_outer_space:
  "strip s = [] \<or> (\<not> py_isspace (hd (strip s)) \<and> \<not> py_isspace (last (strip s)))"
proof (cases "strip s = []")
  case True
  then show ?thesis by simp
next
  case False
  let ?d = "dropWhile py_isspace s"
  let ?e = "dropWhile py_isspace (rev ?d)"
  from False have e: "?e \<noteq> []" by (simp add: strip_def)
  then have "\<not> py_isspace (hd ?e)" by (rule hd_dropWhile)
  then have l: "\<not> py_isspace (last (strip s))"
    using e by (simp add: strip_def last_rev)
  from e have d: "?d \<noteq> []" by (metis dropWhile.simps(1) rev_is_Nil_conv)
  then have hd: "\<not> py_isspace (hd ?d)" by (rule hd_dropWhile)
  have "?d = strip s @ rev (takeWhile py_isspace (rev ?d))"
    using strip_decomposition [of s] by (metis same_append_eq takeWhile_dropWhile_id)
  then have "hd ?d = hd (strip s)" using False by (metis hd_append2)
  with hd l show ?thesis by simp
qed

lemma strip_example: "strip (ascii ''  '' @ sochi @ [0xA]) = sochi"
  by (simp add: strip_def sochi_def ascii_def py_isspace_def)

text \<open>The replies: what they leave alone, and the reply that is delivered.\<close>

lemma reply_text_sessions: "sessions (snd (reply_text W upd t markup st)) = sessions st"
  by (simp add: reply_text_def Let_def split: option.splits)

lemma reply_text_http_sent: "http_sent (snd (reply_text W upd t markup st)) = http_sent st"
  by (simp add: reply_text_def Let_def split: option.splits)

lemma reply_text_delivered:
  assumes "message upd = Some t0"
    and "send_error W \<lparr>reply_body = t, parse_mode = ''HTML'', reply_markup = markup\<rparr> = None"
  shows "reply_text W upd t markup st =
    (Inr (), st\<lparr>chat_out := chat_out st
        @ [\<lparr>reply_body = t, parse_mode = ''HTML'', reply_markup = markup\<rparr>]\<rparr>)"
  using assms by (simp add: reply_text_def)

text \<open>
  \<open>strip\<close> again, in the form the claims use: whitespace, the stripped text,
  whitespace.
\<close>

lemma list_all_takeWhile: "list_all P (takeWhile P xs)"
  by (induction xs) simp_all

lemma strip_between_spaces:
  "\<exists>pre post. s = pre @ strip s @ post \<and> list_all py_isspace pre \<and> list_all py_isspace post"
proof -
  have "list_all py_isspace (rev (takeWhile py_isspace (rev (dropWhile py_isspace s))))"
    by (simp add: list_all_takeWhile)
  then show ?thesis
    using strip_decomposition [of s] list_all_takeWhile [of py_isspace s] by blast
qed

text \<open>
  The command handlers return the context they were given and leave the session
  dictionaries alone, and so does the chat loop on a command.
\<close>

lemma start_frame:
  "fst (snd (start W k upd ctx st)) = ctx
   \<and> sessions (snd (snd (start W k upd ctx st))) = sessions st"
  by (simp add: start_def Let_def case_prod_beta reply_text_sessions)

lemma help_command_frame:
  "fst (snd (help_command W k upd ctx st)) = ctx
   \<and> sessions (snd (snd (help_command W k upd ctx st))) = sessions st"
  by (simp add: help_command_def case_prod_beta reply_text_sessions)

lemma weather_frame:
  "fst (snd (weather W k upd ctx st)) = ctx
   \<and> sessions (snd (snd (weather W k upd ctx st))) = sessions st"
proof -
  obtain info st1 where gw:
    "get_weather W k (join (ascii '' '') (args ctx)) st = (Inr info, st1)"
    using get_weather_cases by blast
  have "sessions st1 = sessions st"
    using get_weather_sessions [of W k "join (ascii '' '') (args ctx)" st] gw by simp
  then show ?thesis
    using gw by (simp add: weather_def Let_def case_prod_beta reply_text_sessions)
qed

lemma dispatch_command_sessions:
  assumes "kind upd = StartCommand \<or> kind upd = HelpCommand \<or> kind upd = WeatherCommand"
  shows "sessions (dispatch W API_KEY upd st) = sessions st"
  using assms
  by (auto simp: dispatch_def Let_def start_frame help_command_frame weather_frame)

text \<open>
  The decimal rendering: only digits, and they spell the number.
\<close>

lemma str_nat_value: "foldl (\<lambda>a d. 10 * a + (d - 48)) 0 (str_nat n) = n"
proof (induction n rule: str_nat.induct)
  case (1 n)
  show ?case
  proof (cases "n < 10")
    case True
    then show ?thesis by (subst str_nat.simps) simp
  next
    case False
    with "1" show ?thesis by (subst str_nat.simps) simp
  qed
qed

lemma str_nat_digits: "list_all (\<lambda>d. 48 \<le> d \<and> d \<le> 57) (str_nat n)"
proof (induction n rule: str_nat.induct)
  case (1 n)
  show ?case
  proof (cases "n < 10")
    case True
    then show ?thesis by (subst str_nat.simps) simp
  next
    case False
    have "n mod 10 < 10" by simp
    then have "48 + n mod 10 \<le> 57" by linarith
    with False "1" show ?thesis by (subst str_nat.simps) simp
  qed
qed

lemma str_int_nonneg:
  "0 \<le> i \<Longrightarrow> foldl (\<lambda>a d. 10 * a + (d - 48)) 0 (str_int i) = nat i
     \<and> list_all (\<lambda>d. 48 \<le> d \<and> d \<le> 57) (str_int i)"
  by (simp add: str_int_def str_nat_value str_nat_digits)

section \<open>The weather lookup: claims\<close>

text \<open>
  Claim C1. Whatever the city, the key and the outcome of the HTTP request (a response
  of any status and body, or a failure of the request), \<open>get_weather\<close> returns a string
  and no exception leaves it. The string is the city-not-found message, an API-error
  message, an unexpected-error message, or the filled weather template.
\<close>

theorem get_weather_never_raises:
  "\<exists>s. fst (get_weather W API_KEY city st) = Inr s
     \<and> (s = city_not_found city
        \<or> (\<exists>e. s = api_error e)
        \<or> (\<exists>e. s = unexpected_error e)
        \<or> (\<exists>d t h p w l. s = format_weather W city d t h p w l))"
proof (cases "server W (weather_request API_KEY city)")
  case (Raised m)
  then show ?thesis
    by (auto simp: get_weather_def handle_exception_def)
next
  case (Returned r)
  show ?thesis
  proof (cases "weather_info W city r")
    case (Inr info)
    with Returned weather_info_Inr [OF Inr] show ?thesis
      by (auto simp: get_weather_def)
  next
    case (Inl e)
    with Returned show ?thesis
      by (cases e) (auto simp: get_weather_def handle_exception_def Let_def)
  qed
qed

text \<open>
  Claim C2. When the request is answered with status 404, \<open>get_weather\<close> returns the
  city-not-found message built around the city's name, which is never an API-error
  message, and it emits no log record.
\<close>

theorem get_weather_404:
  assumes "server W (weather_request API_KEY city) = Returned r"
    and "status_code r = 404"
  shows "fst (get_weather W API_KEY city st) = Inr (city_not_found city)
    \<and> sublist city (city_not_found city)
    \<and> (\<forall>e. city_not_found city \<noteq> api_error e)
    \<and> logs (snd (get_weather W API_KEY city st)) = logs st"
proof -
  have "get_weather W API_KEY city st =
      (Inr (city_not_found city),
       st\<lparr>http_sent := http_sent st @ [weather_request API_KEY city]\<rparr>)"
    using assms by (rule get_weather_404_result)
  moreover have "sublist city (city_not_found city)"
    unfolding city_not_found_def by (rule sublist_appendI)
  moreover have "\<forall>e. city_not_found city \<noteq> api_error e"
    by (simp add: city_not_found_def api_error_def)
  ultimately show ?thesis by simp
qed

theorem get_weather_404_witness:
  "server (demo_world (Returned (demo_response 404 ''Not Found'' None)))
       (weather_request demo_key sochi) = Returned (demo_response 404 ''Not Found'' None)
   \<and> status_code (demo_response 404 ''Not Found'' None) = 404
   \<and> fst (get_weather (demo_world (Returned (demo_response 404 ''Not Found'' None)))
            demo_key sochi st0) = Inr (city_not_found sochi)
   \<and> logs (snd (get_weather (demo_world (Returned (demo_response 404 ''Not Found'' None)))
            demo_key sochi st0)) = []"
  using get_weather_404 [of "demo_world (Returned (demo_response 404 ''Not Found'' None))"
      demo_key sochi "demo_response 404 ''Not Found'' None" st0]
  by (simp add: demo_world_def demo_response_def st0_def)

text \<open>
  Claim C3, as amended. When the request is answered with a status from 400 to 599 other
  than 404, \<open>get_weather\<close> returns the API-error message, which includes the text of the
  \<open>HTTPError\<close>, and emits exactly one log record, at error level.
\<close>

theorem get_weather_http_error_status:
  assumes "server W (weather_request API_KEY city) = Returned r"
    and "400 \<le> status_code r" and "status_code r < 600" and "status_code r \<noteq> 404"
  shows "fst (get_weather W API_KEY city st) = Inr (api_error (http_error_msg r))
    \<and> sublist (http_error_msg r) (api_error (http_error_msg r))
    \<and> logs (snd (get_weather W API_KEY city st))
        = logs st @ [(ERROR, http_error_log city (http_error_msg r))]"
proof -
  have "get_weather W API_KEY city st =
      (Inr (api_error (http_error_msg r)),
       logger_error (http_error_log city (http_error_msg r))
         (st\<lparr>http_sent := http_sent st @ [weather_request API_KEY city]\<rparr>))"
    using assms by (simp add: get_weather_http_error handle_exception_def exn_str_def)
  moreover have "sublist (http_error_msg r) (api_error (http_error_msg r))"
    unfolding api_error_def by (intro sublist_prepend sublist_append_leftI)
  ultimately show ?thesis by (simp add: logger_error_def)
qed

theorem get_weather_http_error_status_witness:
  "server (demo_world (Returned (demo_response 500 ''Internal Server Error'' None)))
       (weather_request demo_key sochi)
     = Returned (demo_response 500 ''Internal Server Error'' None)
   \<and> 400 \<le> status_code (demo_response 500 ''Internal Server Error'' None)
   \<and> status_code (demo_response 500 ''Internal Server Error'' None) < 600
   \<and> status_code (demo_response 500 ''Internal Server Error'' None) \<noteq> 404
   \<and> fst (get_weather
            (demo_world (Returned (demo_response 500 ''Internal Server Error'' None)))
            demo_key sochi st0)
     = Inr (api_error (ascii ''500 Server Error: Internal Server Error for url: ''
              @ weather_url))
   \<and> logs (snd (get_weather
            (demo_world (Returned (demo_response 500 ''Internal Server Error'' None)))
            demo_key sochi st0))
     = [(ERROR, http_error_log sochi
          (ascii ''500 Server Error: Internal Server Error for url: '' @ weather_url))]"
  using get_weather_http_error_status
    [of "demo_world (Returned (demo_response 500 ''Internal Server Error'' None))"
      demo_key sochi "demo_response 500 ''Internal Server Error'' None" st0]
  by (simp add: demo_world_def demo_response_def st0_def http_error_msg_def str_nat.simps
      ascii_def)

text \<open>
  Claim C3 as stated fails for a status outside 200 to 299 that \<open>raise_for_status\<close> lets
  pass: a response with status 304 and no JSON body ends in the clause
  \<open>except Exception\<close>, and the result is the unexpected-error message, not the
  API-error message.
\<close>

theorem get_weather_304_not_api_error:
  "status_code (demo_response 304 ''Not Modified'' None) = 304
   \<and> \<not> (200 \<le> status_code (demo_response 304 ''Not Modified'' None)
          \<and> status_code (demo_response 304 ''Not Modified'' None) < 300)
   \<and> fst (get_weather (demo_world (Returned (demo_response 304 ''Not Modified'' None)))
            demo_key sochi st0) = Inr (unexpected_error (ascii ''error''))
   \<and> \<not> (\<exists>e. fst (get_weather
                   (demo_world (Returned (demo_response 304 ''Not Modified'' None)))
                   demo_key sochi st0) = Inr (api_error e))"
  by (simp add: get_weather_def weather_info_def raise_for_status_def http_error_msg_def
      response_json_def handle_exception_def exn_str_def demo_world_def demo_response_def
      unexpected_error_def api_error_def)

text \<open>
  Claim C8. \<open>get_weather\<close> sends exactly one request: a GET to the weather URL whose
  parameters are the city as given, the key, \<open>units=metric\<close> and \<open>lang=ru\<close>.
\<close>

theorem get_weather_one_request:
  "http_sent (snd (get_weather W API_KEY city st)) = http_sent st @
     [\<lparr>http_method = ''GET'',
       url = ascii ''https://api.openweathermap.org/data/2.5/weather'',
       params = [(''q'', city), (''appid'', API_KEY), (''units'', ascii ''metric''),
                 (''lang'', ascii ''ru'')]\<rparr>]"
  by (simp add: get_weather_http_sent weather_request_def weather_url_def)

text \<open>
  Claim C4. A response with a status from 200 to 299 whose JSON document has the fields
  of a weather report (\<open>weather[0].description\<close>, \<open>main.temp\<close>, \<open>main.humidity\<close>,
  \<open>wind.speed\<close> and a \<open>sys.sunset\<close> timestamp the platform converts) makes
  \<open>get_weather\<close> return the filled template: it contains the city, the description,
  the temperature, the humidity, the pressure (the placeholder when \<open>main.grnd_level\<close>
  is absent), the wind speed, and the sunset's local hour and minute, two digits each.
\<close>

theorem get_weather_success:
  assumes "server W (weather_request API_KEY city) = Returned r"
    and "200 \<le> status_code r" and "status_code r < 300"
    and "body r = Some (JObj data)"
    and "map_of data (ascii ''weather'') = Some (JArr (JObj w # ws))"
    and "map_of w (ascii ''description'') = Some description"
    and "map_of data (ascii ''main'') = Some (JObj m)"
    and "map_of m (ascii ''temp'') = Some temp"
    and "map_of m (ascii ''humidity'') = Some humidity"
    and "map_of data (ascii ''wind'') = Some (JObj wd)"
    and "map_of wd (ascii ''speed'') = Some wind_speed"
    and "map_of data (ascii ''sys'') = Some (JObj sy)"
    and "map_of sy (ascii ''sunset'') = Some sunset"
    and "timestamp_seconds W sunset = Inr t"
    and "localtime_ok W t"
  shows "\<exists>info pressure hh mm.
      fst (get_weather W API_KEY city st) = Inr info
    \<and> pressure = (case map_of m (ascii ''grnd_level'') of
                    None \<Rightarrow> [0x43D, 0x2F, 0x434]
                  | Some p \<Rightarrow> format_value W p)
    \<and> hh = nat (((t + utcoffset W t) div 3600) mod 24) \<and> hh < 24
    \<and> mm = nat (((t + utcoffset W t) div 60) mod 60) \<and> mm < 60
    \<and> info = weather_in @ city @ description_label @ format_value W description
         @ temperature_label @ format_value W temp
         @ humidity_label @ format_value W humidity
         @ pressure_label @ pressure
         @ wind_label @ format_value W wind_speed
         @ sunset_label @ [48 + hh div 10, 48 + hh mod 10, 0x3A, 48 + mm div 10, 48 + mm mod 10]
    \<and> sublist city info
    \<and> sublist (format_value W description) info
    \<and> sublist (format_value W temp) info
    \<and> sublist (format_value W humidity) info
    \<and> sublist pressure info
    \<and> sublist (format_value W wind_speed) info
    \<and> sublist [48 + hh div 10, 48 + hh mod 10, 0x3A, 48 + mm div 10, 48 + mm mod 10] info"
proof -
  define pressure where "pressure = (case map_of m (ascii ''grnd_level'') of
                    None \<Rightarrow> [0x43D, 0x2F, 0x434]
                  | Some p \<Rightarrow> format_value W p)"
  define hh where "hh = nat (((t + utcoffset W t) div 3600) mod 24)"
  define mm where "mm = nat (((t + utcoffset W t) div 60) mod 60)"
  define clock where
    "clock = [48 + hh div 10, 48 + hh mod 10, 0x3A, 48 + mm div 10, 48 + mm mod 10]"
  define info where "info = weather_in @ city @ description_label @ format_value W description
         @ temperature_label @ format_value W temp
         @ humidity_label @ format_value W humidity
         @ pressure_label @ pressure
         @ wind_label @ format_value W wind_speed
         @ sunset_label @ clock"
  have "http_error_msg r = []"
    using assms(2,3) by (simp add: http_error_msg_empty)
  then have "raise_for_status r = Inr ()"
    by (simp add: raise_for_status_def)
  then have "weather_info W city r =
    Inr (format_weather W city description temp humidity
          (case map_of m (ascii ''grnd_level'') of None \<Rightarrow> JStr no_data | Some p \<Rightarrow> p)
          wind_speed (t + utcoffset W t))"
    using assms(4-15) by (rule weather_info_ok)
  moreover have "format_value W (case map_of m (ascii ''grnd_level'') of
                None \<Rightarrow> JStr no_data | Some p \<Rightarrow> p) = pressure"
    by (simp add: pressure_def no_data_def split: option.splits)
  moreover have "strftime_HM (t + utcoffset W t) = clock"
    by (simp add: strftime_HM_def two_digits_def hour_of_def minute_of_def clock_def hh_def
        mm_def)
  ultimately have "weather_info W city r = Inr info"
    by (simp add: format_weather_def info_def)
  then have res: "fst (get_weather W API_KEY city st) = Inr info"
    using assms(1) by (simp add: get_weather_def)
  have bounds: "hh < 24" "mm < 60"
    by (simp_all add: hh_def mm_def nat_less_iff)
  have subs: "sublist city info" "sublist (format_value W description) info"
    "sublist (format_value W temp) info" "sublist (format_value W humidity) info"
    "sublist pressure info" "sublist (format_value W wind_speed) info" "sublist clock info"
    unfolding info_def
    by (intro sublist_appendI sublist_append_leftI sublist_prepend)+
  show ?thesis
    using res bounds subs
    unfolding pressure_def hh_def mm_def clock_def info_def
    by blast
qed

theorem get_weather_success_witness:
  "server (demo_world (Returned (demo_response 200 ''OK'' (Some demo_weather))))
      (weather_request demo_key sochi) = Returned (demo_response 200 ''OK'' (Some demo_weather))
   \<and> body (demo_response 200 ''OK'' (Some demo_weather)) = Some demo_weather
   \<and> fst (get_weather (demo_world (Returned (demo_response 200 ''OK'' (Some demo_weather))))
           demo_key sochi st0)
     = Inr (weather_in @ sochi @ description_label @ [0x44F, 0x441, 0x43D, 0x43E]
            @ temperature_label @ ascii ''21'' @ humidity_label @ ascii ''60''
            @ pressure_label @ [0x43D, 0x2F, 0x434] @ wind_label @ ascii ''3''
            @ sunset_label @ ascii ''01:13'')"
  using get_weather_success
    [of "demo_world (Returned (demo_response 200 ''OK'' (Some demo_weather)))"
      demo_key sochi "demo_response 200 ''OK'' (Some demo_weather)"
      "[(ascii ''weather'', JArr [JObj [(ascii ''description'',
                                            JStr [0x44F, 0x441, 0x43D, 0x43E])]]),
           (ascii ''main'', JObj [(ascii ''temp'', JInt 21), (ascii ''humidity'', JInt 60)]),
           (ascii ''wind'', JObj [(ascii ''speed'', JInt 3)]),
           (ascii ''sys'', JObj [(ascii ''sunset'', JInt 1700000000)])]"
      "[(ascii ''description'', JStr [0x44F, 0x441, 0x43D, 0x43E])]" "[]"
      "JStr [0x44F, 0x441, 0x43D, 0x43E]"
      "[(ascii ''temp'', JInt 21), (ascii ''humidity'', JInt 60)]" "JInt 21" "JInt 60"
      "[(ascii ''speed'', JInt 3)]" "JInt 3" "[(ascii ''sunset'', JInt 1700000000)]"
      "JInt 1700000000" 1700000000 st0]
  by (simp add: demo_world_def demo_response_def demo_weather_def ascii_def str_int_def
      str_nat.simps)

section \<open>The chat handlers: claims\<close>

text \<open>
  Claim C5, as amended. For a text message whose update carries the message and whose
  reply the chat platform delivers, \<open>handle_message\<close> takes the text without its
  leading and trailing whitespace as the city, looks the weather up once (one request,
  for that city), sends one reply whose text is the result of the lookup, stores the
  city under \<open>last_city\<close> in the user's session data, and last logs a record holding
  the user's id, in decimal, and the city.
\<close>

theorem handle_message_effects:
  assumes "message upd = Some t"
    and "fst (get_weather W API_KEY (strip t) st) = Inr info"
    and "send_error W \<lparr>reply_body = info, parse_mode = ''HTML'', reply_markup = None\<rparr> = None"
  shows "fst (handle_message W API_KEY upd ctx st) = Inr ()
    \<and> (\<exists>pre post. t = pre @ strip t @ post
          \<and> list_all py_isspace pre \<and> list_all py_isspace post)
    \<and> (strip t = [] \<or> (\<not> py_isspace (hd (strip t)) \<and> \<not> py_isspace (last (strip t))))
    \<and> http_sent (snd (snd (handle_message W API_KEY upd ctx st)))
        = http_sent st @ [weather_request API_KEY (strip t)]
    \<and> chat_out (snd (snd (handle_message W API_KEY upd ctx st)))
        = chat_out st @ [\<lparr>reply_body = info, parse_mode = ''HTML'', reply_markup = None\<rparr>]
    \<and> user_data (fst (snd (handle_message W API_KEY upd ctx st))) ''last_city''
        = Some (strip t)
    \<and> logs (snd (snd (handle_message W API_KEY upd ctx st)))
        = logs (snd (get_weather W API_KEY (strip t) st))
          @ [(INFO, [0x41F, 0x43E, 0x43B, 0x44C, 0x437, 0x43E, 0x432, 0x430, 0x442, 0x435,
                     0x43B, 0x44C, 0x20] @ str_int (user_id upd)
                  @ [0x20, 0x437, 0x430, 0x43F, 0x440, 0x43E, 0x441, 0x438, 0x43B, 0x20,
                     0x43F, 0x43E, 0x433, 0x43E, 0x434, 0x443, 0x20, 0x434, 0x43B, 0x44F,
                     0x20] @ strip t)]
    \<and> (0 \<le> user_id upd \<longrightarrow>
          foldl (\<lambda>a d. 10 * a + (d - 48)) 0 (str_int (user_id upd)) = nat (user_id upd)
        \<and> list_all (\<lambda>d. 48 \<le> d \<and> d \<le> 57) (str_int (user_id upd)))"
proof -
  obtain st1 where gw: "get_weather W API_KEY (strip t) st = (Inr info, st1)"
    using assms(2) by (cases "get_weather W API_KEY (strip t) st") simp
  have sent: "http_sent st1 = http_sent st @ [weather_request API_KEY (strip t)]"
    using get_weather_http_sent [of W API_KEY "strip t" st] gw by simp
  have chat: "chat_out st1 = chat_out st"
    using get_weather_chat_out [of W API_KEY "strip t" st] gw by simp
  have rt: "reply_text W upd info None st1 =
    (Inr (), st1\<lparr>chat_out := chat_out st1
        @ [\<lparr>reply_body = info, parse_mode = ''HTML'', reply_markup = None\<rparr>]\<rparr>)"
    using assms(1,3) by (rule reply_text_delivered)
  have hm: "handle_message W API_KEY upd ctx st =
    (Inr (), ctx\<lparr>user_data := (user_data ctx)(''last_city'' \<mapsto> strip t)\<rparr>,
     logger_info (user_asked (user_id upd) (strip t))
       (st1\<lparr>chat_out := chat_out st1
          @ [\<lparr>reply_body = info, parse_mode = ''HTML'', reply_markup = None\<rparr>]\<rparr>))"
    using assms(1) gw rt by (simp add: handle_message_def Let_def)
  show ?thesis
    using sent chat gw strip_between_spaces [of t] strip_no_outer_space [of t]
    by (simp add: hm logger_info_def user_asked_def str_int_nonneg)
qed

theorem handle_message_effects_witness:
  "message (demo_update TextMessage [] (ascii ''  '' @ sochi @ [0xA0, 0xA]))
     = Some (ascii ''  '' @ sochi @ [0xA0, 0xA])
   \<and> strip (ascii ''  '' @ sochi @ [0xA0, 0xA]) = sochi
   \<and> fst (get_weather (demo_world (Returned (demo_response 404 ''Not Found'' None)))
           demo_key sochi st0) = Inr (city_not_found sochi)
   \<and> http_sent (snd (snd (handle_message
         (demo_world (Returned (demo_response 404 ''Not Found'' None))) demo_key
         (demo_update TextMessage [] (ascii ''  '' @ sochi @ [0xA0, 0xA]))
         \<lparr>args = [], user_data = Map.empty\<rparr> st0)))
       = [weather_request demo_key [0x421, 0x43E, 0x447, 0x438]]
   \<and> chat_out (snd (snd (handle_message
         (demo_world (Returned (demo_response 404 ''Not Found'' None))) demo_key
         (demo_update TextMessage [] (ascii ''  '' @ sochi @ [0xA0, 0xA]))
         \<lparr>args = [], user_data = Map.empty\<rparr> st0)))
       = [\<lparr>reply_body = city_not_found sochi, parse_mode = ''HTML'', reply_markup = None\<rparr>]
   \<and> user_data (fst (snd (handle_message
         (demo_world (Returned (demo_response 404 ''Not Found'' None))) demo_key
         (demo_update TextMessage [] (ascii ''  '' @ sochi @ [0xA0, 0xA]))
         \<lparr>args = [], user_data = Map.empty\<rparr> st0))) ''last_city''
       = Some [0x421, 0x43E, 0x447, 0x438]
   \<and> logs (snd (snd (handle_message
         (demo_world (Returned (demo_response 404 ''Not Found'' None))) demo_key
         (demo_update TextMessage [] (ascii ''  '' @ sochi @ [0xA0, 0xA]))
         \<lparr>args = [], user_data = Map.empty\<rparr> st0)))
       = [(INFO, [0x41F, 0x43E, 0x43B, 0x44C, 0x437, 0x43E, 0x432, 0x430, 0x442, 0x435,
                  0x43B, 0x44C, 0x20, 0x34, 0x32, 0x20, 0x437, 0x430, 0x43F, 0x440, 0x43E,
                  0x441, 0x438, 0x43B, 0x20, 0x43F, 0x43E, 0x433, 0x43E, 0x434, 0x443, 0x20,
                  0x434, 0x43B, 0x44F, 0x20, 0x421, 0x43E, 0x447, 0x438])]"
proof -
  let ?W = "demo_world (Returned (demo_response 404 ''Not Found'' None))"
  let ?t = "ascii ''  '' @ sochi @ [0xA0, 0xA]"
  have s: "strip ?t = sochi"
    by (simp add: strip_def sochi_def ascii_def py_isspace_def)
  have gw: "get_weather ?W demo_key sochi st0
      = (Inr (city_not_found sochi),
         st0\<lparr>http_sent := http_sent st0 @ [weather_request demo_key sochi]\<rparr>)"
    by (rule get_weather_404_result [where r = "demo_response 404 ''Not Found'' None"])
      (simp_all add: demo_world_def demo_response_def)
  have h1: "message (demo_update TextMessage [] ?t) = Some ?t"
    by (simp add: demo_update_def)
  have h2: "fst (get_weather ?W demo_key (strip ?t) st0) = Inr (city_not_found sochi)"
    by (simp add: s gw)
  have h3: "send_error ?W \<lparr>reply_body = city_not_found sochi, parse_mode = ''HTML'',
      reply_markup = None\<rparr> = None"
    by (simp add: demo_world_def)
  show ?thesis
    using handle_message_effects [OF h1 h2 h3, of "\<lparr>args = [], user_data = Map.empty\<rparr>"]
      h1 s gw
    by (simp add: st0_def demo_update_def str_int_def str_nat.simps sochi_def)
qed

text \<open>
  Claim C5 as stated fails when the reply raises: the city \<open>a<b\<close> is looked up, the
  chat platform rejects the reply that quotes it, and the handler ends at line 147 with
  no reply delivered, no \<open>last_city\<close> and no log record.
\<close>

theorem handle_message_rejected_reply:
  "message (demo_update TextMessage [] (ascii ''a<b'')) = Some (ascii ''a<b'')
   \<and> fst (get_weather
           (demo_world_chat (Returned (demo_response 404 ''Not Found'' None))
              rejects_unclosed_tag)
           demo_key (ascii ''a<b'') st0) = Inr (city_not_found (ascii ''a<b''))
   \<and> fst (handle_message
           (demo_world_chat (Returned (demo_response 404 ''Not Found'' None))
              rejects_unclosed_tag)
           demo_key (demo_update TextMessage [] (ascii ''a<b''))
           \<lparr>args = [], user_data = Map.empty\<rparr> st0)
       = Inl (TelegramError (ascii ''Bad Request: unsupported start tag''))
   \<and> chat_out (snd (snd (handle_message
           (demo_world_chat (Returned (demo_response 404 ''Not Found'' None))
              rejects_unclosed_tag)
           demo_key (demo_update TextMessage [] (ascii ''a<b''))
           \<lparr>args = [], user_data = Map.empty\<rparr> st0))) = []
   \<and> logs (snd (snd (handle_message
           (demo_world_chat (Returned (demo_response 404 ''Not Found'' None))
              rejects_unclosed_tag)
           demo_key (demo_update TextMessage [] (ascii ''a<b''))
           \<lparr>args = [], user_data = Map.empty\<rparr> st0))) = []
   \<and> user_data (fst (snd (handle_message
           (demo_world_chat (Returned (demo_response 404 ''Not Found'' None))
              rejects_unclosed_tag)
           demo_key (demo_update TextMessage [] (ascii ''a<b''))
           \<lparr>args = [], user_data = Map.empty\<rparr> st0))) ''last_city'' = None"
proof -
  let ?W = "demo_world_chat (Returned (demo_response 404 ''Not Found'' None))
              rejects_unclosed_tag"
  have s: "strip (ascii ''a<b'') = ascii ''a<b''"
    by (simp add: strip_def ascii_def py_isspace_def)
  have gw: "get_weather ?W demo_key (ascii ''a<b'') st0
      = (Inr (city_not_found (ascii ''a<b'')),
         st0\<lparr>http_sent := http_sent st0 @ [weather_request demo_key (ascii ''a<b'')]\<rparr>)"
    by (rule get_weather_404_result [where r = "demo_response 404 ''Not Found'' None"])
      (simp_all add: demo_world_chat_def demo_world_def demo_response_def)
  have se: "send_error ?W = rejects_unclosed_tag"
    by (simp add: demo_world_chat_def)
  have st: "logs st0 = []" "chat_out st0 = []"
    by (simp_all add: st0_def)
  show ?thesis
    by (simp add: handle_message_def demo_update_def s gw reply_text_def se st
        rejects_unclosed_tag_def)
qed

text \<open>
  Claim C6, as amended. The \<open>/weather\<close> handler with arguments joins them with single
  spaces and looks that city up (one request); without arguments it sends no request.
  When the update carries a message and the chat platform delivers the reply, the
  handler sends one reply: the result of the lookup with arguments, the fixed message
  asking for a city without.
\<close>

theorem weather_command_effects:
  "(args ctx \<noteq> [] \<longrightarrow>
      (\<exists>info. fst (get_weather W API_KEY (join [0x20] (args ctx)) st) = Inr info
        \<and> http_sent (snd (snd (weather W API_KEY upd ctx st)))
            = http_sent st @ [weather_request API_KEY (join [0x20] (args ctx))]
        \<and> (message upd \<noteq> None
             \<and> send_error W \<lparr>reply_body = info, parse_mode = ''HTML'', reply_markup = None\<rparr>
                 = None \<longrightarrow>
               fst (weather W API_KEY upd ctx st) = Inr ()
             \<and> chat_out (snd (snd (weather W API_KEY upd ctx st)))
                 = chat_out st @ [\<lparr>reply_body = info, parse_mode = ''HTML'',
                                     reply_markup = None\<rparr>])))
   \<and> (args ctx = [] \<longrightarrow>
        http_sent (snd (snd (weather W API_KEY upd ctx st))) = http_sent st
      \<and> (message upd \<noteq> None
           \<and> send_error W \<lparr>reply_body = specify_city, parse_mode = ''HTML'',
                             reply_markup = None\<rparr> = None \<longrightarrow>
             fst (weather W API_KEY upd ctx st) = Inr ()
           \<and> chat_out (snd (snd (weather W API_KEY upd ctx st)))
               = chat_out st @ [\<lparr>reply_body = specify_city, parse_mode = ''HTML'',
                                   reply_markup = None\<rparr>]))"
proof -
  obtain info st1 where
    gw: "get_weather W API_KEY (join [0x20] (args ctx)) st = (Inr info, st1)"
    using get_weather_cases by blast
  have sent: "http_sent st1 = http_sent st @ [weather_request API_KEY (join [0x20] (args ctx))]"
    using get_weather_http_sent [of W API_KEY "join [0x20] (args ctx)" st] gw by simp
  have chat: "chat_out st1 = chat_out st"
    using get_weather_chat_out [of W API_KEY "join [0x20] (args ctx)" st] gw by simp
  have sp: "ascii '' '' = [0x20]"
    by (simp add: ascii_def)
  have with_args: "args ctx \<noteq> [] \<Longrightarrow> weather W API_KEY upd ctx st
      = (fst (reply_text W upd info None st1), ctx, snd (reply_text W upd info None st1))"
    using gw by (simp add: weather_def sp case_prod_beta)
  have no_args: "args ctx = [] \<Longrightarrow> weather W API_KEY upd ctx st
      = (fst (reply_text W upd specify_city None st), ctx,
         snd (reply_text W upd specify_city None st))"
    by (simp add: weather_def case_prod_beta)
  have a: "args ctx \<noteq> [] \<Longrightarrow>
      http_sent (snd (snd (weather W API_KEY upd ctx st)))
        = http_sent st @ [weather_request API_KEY (join [0x20] (args ctx))]"
    by (simp add: with_args reply_text_http_sent sent)
  have b: "args ctx \<noteq> [] \<Longrightarrow> message upd \<noteq> None \<Longrightarrow>
      send_error W \<lparr>reply_body = info, parse_mode = ''HTML'', reply_markup = None\<rparr> = None \<Longrightarrow>
      fst (weather W API_KEY upd ctx st) = Inr ()
      \<and> chat_out (snd (snd (weather W API_KEY upd ctx st)))
          = chat_out st @ [\<lparr>reply_body = info, parse_mode = ''HTML'', reply_markup = None\<rparr>]"
    by (auto simp: with_args reply_text_delivered chat)
  have c: "args ctx = [] \<Longrightarrow>
      http_sent (snd (snd (weather W API_KEY upd ctx st))) = http_sent st"
    by (simp add: no_args reply_text_http_sent)
  have d: "args ctx = [] \<Longrightarrow> message upd \<noteq> None \<Longrightarrow>
      send_error W \<lparr>reply_body = specify_city, parse_mode = ''HTML'', reply_markup = None\<rparr>
        = None \<Longrightarrow>
      fst (weather W API_KEY upd ctx st) = Inr ()
      \<and> chat_out (snd (snd (weather W API_KEY upd ctx st)))
          = chat_out st @ [\<lparr>reply_body = specify_city, parse_mode = ''HTML'',
                              reply_markup = None\<rparr>]"
    by (auto simp: no_args reply_text_delivered)
  show ?thesis
    using gw a b c d by auto
qed

theorem weather_command_effects_witness:
  "args \<lparr>args = [ascii ''New'', ascii ''York''], user_data = Map.empty\<rparr> \<noteq> []
   \<and> message (demo_update WeatherCommand [ascii ''New'', ascii ''York''] []) \<noteq> None
   \<and> join [0x20] [ascii ''New'', ascii ''York''] = ascii ''New York''
   \<and> http_sent (snd (snd (weather (demo_world (Returned (demo_response 404 ''Not Found'' None)))
        demo_key (demo_update WeatherCommand [ascii ''New'', ascii ''York''] [])
        \<lparr>args = [ascii ''New'', ascii ''York''], user_data = Map.empty\<rparr> st0)))
      = [weather_request demo_key (ascii ''New York'')]
   \<and> chat_out (snd (snd (weather (demo_world (Returned (demo_response 404 ''Not Found'' None)))
        demo_key (demo_update WeatherCommand [ascii ''New'', ascii ''York''] [])
        \<lparr>args = [ascii ''New'', ascii ''York''], user_data = Map.empty\<rparr> st0)))
      = [\<lparr>reply_body = city_not_found (ascii ''New York''), parse_mode = ''HTML'',
          reply_markup = None\<rparr>]
   \<and> args \<lparr>args = [], user_data = Map.empty\<rparr> = []
   \<and> message (demo_update WeatherCommand [] []) \<noteq> None
   \<and> http_sent (snd (snd (weather (demo_world (Returned (demo_response 404 ''Not Found'' None)))
        demo_key (demo_update WeatherCommand [] [])
        \<lparr>args = [], user_data = Map.empty\<rparr> st0))) = []
   \<and> chat_out (snd (snd (weather (demo_world (Returned (demo_response 404 ''Not Found'' None)))
        demo_key (demo_update WeatherCommand [] [])
        \<lparr>args = [], user_data = Map.empty\<rparr> st0)))
      = [\<lparr>reply_body = specify_city, parse_mode = ''HTML'', reply_markup = None\<rparr>]"
proof -
  let ?W = "demo_world (Returned (demo_response 404 ''Not Found'' None))"
  have j: "join [0x20] [ascii ''New'', ascii ''York''] = ascii ''New York''"
    by (simp add: ascii_def)
  have gw: "get_weather ?W demo_key (ascii ''New York'') st0
      = (Inr (city_not_found (ascii ''New York'')),
         st0\<lparr>http_sent := http_sent st0 @ [weather_request demo_key (ascii ''New York'')]\<rparr>)"
    by (rule get_weather_404_result [where r = "demo_response 404 ''Not Found'' None"])
      (simp_all add: demo_world_def demo_response_def)
  have se: "send_error ?W = (\<lambda>r. None)"
    by (simp add: demo_world_def)
  have st: "http_sent st0 = []" "chat_out st0 = []"
    by (simp_all add: st0_def)
  show ?thesis
    using weather_command_effects
      [where ctx = "\<lparr>args = [ascii ''New'', ascii ''York''], user_data = Map.empty\<rparr>"
         and W = ?W and API_KEY = demo_key and st = st0
         and upd = "demo_update WeatherCommand [ascii ''New'', ascii ''York''] []"]
      weather_command_effects
      [where ctx = "\<lparr>args = [], user_data = Map.empty\<rparr>"
         and W = ?W and API_KEY = demo_key and st = st0
         and upd = "demo_update WeatherCommand [] []"]
    by (simp add: j gw se st demo_update_def del: join.simps)
qed

text \<open>
  Claim C6 as stated fails for an edited \<open>/weather\<close> command, whose update carries no
  \<open>message\<close>: the lookup is made, then line 136 raises and no reply is sent.
\<close>

theorem weather_edited_command_no_reply:
  "args \<lparr>args = [sochi], user_data = Map.empty\<rparr> \<noteq> []
   \<and> message (demo_edited_update WeatherCommand [sochi]) = None
   \<and> fst (weather (demo_world (Returned (demo_response 404 ''Not Found'' None))) demo_key
           (demo_edited_update WeatherCommand [sochi])
           \<lparr>args = [sochi], user_data = Map.empty\<rparr> st0) = Inl AttributeError
   \<and> http_sent (snd (snd (weather
           (demo_world (Returned (demo_response 404 ''Not Found'' None))) demo_key
           (demo_edited_update WeatherCommand [sochi])
           \<lparr>args = [sochi], user_data = Map.empty\<rparr> st0)))
       = [weather_request demo_key sochi]
   \<and> chat_out (snd (snd (weather
           (demo_world (Returned (demo_response 404 ''Not Found'' None))) demo_key
           (demo_edited_update WeatherCommand [sochi])
           \<lparr>args = [sochi], user_data = Map.empty\<rparr> st0))) = []"
proof -
  let ?W = "demo_world (Returned (demo_response 404 ''Not Found'' None))"
  have gw: "get_weather ?W demo_key sochi st0
      = (Inr (city_not_found sochi),
         st0\<lparr>http_sent := http_sent st0 @ [weather_request demo_key sochi]\<rparr>)"
    by (rule get_weather_404_result [where r = "demo_response 404 ''Not Found'' None"])
      (simp_all add: demo_world_def demo_response_def)
  have st: "http_sent st0 = []" "chat_out st0 = []"
    by (simp_all add: st0_def)
  show ?thesis
    by (simp add: weather_def gw reply_text_def demo_edited_update_def st)
qed

text \<open>
  Claim C9. The handlers of \<open>/weather\<close>, \<open>/start\<close> and \<open>/help\<close> leave \<open>last_city\<close> in
  the user's session data as it was, and so does the chat loop when it handles an
  update of one of these commands.
\<close>

theorem commands_keep_last_city:
  "user_data (fst (snd (weather W API_KEY upd ctx st))) ''last_city''
      = user_data ctx ''last_city''
   \<and> user_data (fst (snd (start W API_KEY upd ctx st))) ''last_city''
      = user_data ctx ''last_city''
   \<and> user_data (fst (snd (help_command W API_KEY upd ctx st))) ''last_city''
      = user_data ctx ''last_city''
   \<and> sessions (dispatch W API_KEY (upd\<lparr>kind := WeatherCommand\<rparr>) st) = sessions st
   \<and> sessions (dispatch W API_KEY (upd\<lparr>kind := StartCommand\<rparr>) st) = sessions st
   \<and> sessions (dispatch W API_KEY (upd\<lparr>kind := HelpCommand\<rparr>) st) = sessions st"
  by (simp add: weather_frame start_frame help_command_frame dispatch_command_sessions)

text \<open>
  Claim C10, as amended. When the update carries the message and the chat platform
  delivers the reply, \<open>handle_message\<close> stores the text without its leading and
  trailing whitespace under \<open>last_city\<close>, whatever the lookup returned: also when it
  returned an error message.
\<close>

theorem handle_message_records_city:
  assumes "message upd = Some t"
    and "fst (get_weather W API_KEY (strip t) st) = Inr info"
    and "send_error W \<lparr>reply_body = info, parse_mode = ''HTML'', reply_markup = None\<rparr> = None"
  shows "user_data (fst (snd (handle_message W API_KEY upd ctx st))) ''last_city''
            = Some (strip t)
    \<and> (\<exists>pre post. t = pre @ strip t @ post
          \<and> list_all py_isspace pre \<and> list_all py_isspace post)
    \<and> (strip t = [] \<or> (\<not> py_isspace (hd (strip t)) \<and> \<not> py_isspace (last (strip t))))"
proof -
  obtain st1 where gw: "get_weather W API_KEY (strip t) st = (Inr info, st1)"
    using assms(2) by (cases "get_weather W API_KEY (strip t) st") simp
  have "reply_text W upd info None st1 =
    (Inr (), st1\<lparr>chat_out := chat_out st1
        @ [\<lparr>reply_body = info, parse_mode = ''HTML'', reply_markup = None\<rparr>]\<rparr>)"
    using assms(1,3) by (rule reply_text_delivered)
  then have "user_data (fst (snd (handle_message W API_KEY upd ctx st))) ''last_city''
            = Some (strip t)"
    using assms(1) gw by (simp add: handle_message_def Let_def)
  then show ?thesis
    using strip_between_spaces [of t] strip_no_outer_space [of t] by simp
qed

theorem handle_message_records_city_witness:
  "message (demo_update TextMessage [] ([0x9] @ sochi @ ascii '' ''))
       = Some ([0x9] @ sochi @ ascii '' '')
   \<and> fst (get_weather (demo_world (Returned (demo_response 404 ''Not Found'' None)))
           demo_key sochi st0) = Inr (city_not_found sochi)
   \<and> send_error (demo_world (Returned (demo_response 404 ''Not Found'' None)))
        \<lparr>reply_body = city_not_found sochi, parse_mode = ''HTML'', reply_markup = None\<rparr>
       = None
   \<and> user_data (fst (snd (handle_message
         (demo_world (Returned (demo_response 404 ''Not Found'' None))) demo_key
         (demo_update TextMessage [] ([0x9] @ sochi @ ascii '' ''))
         \<lparr>args = [], user_data = Map.empty\<rparr> st0))) ''last_city''
       = Some [0x421, 0x43E, 0x447, 0x438]"
proof -
  let ?W = "demo_world (Returned (demo_response 404 ''Not Found'' None))"
  let ?t = "[0x9] @ sochi @ ascii '' ''"
  have s: "strip ?t = sochi"
    by (simp add: strip_def sochi_def ascii_def py_isspace_def)
  have gw: "get_weather ?W demo_key sochi st0
      = (Inr (city_not_found sochi),
         st0\<lparr>http_sent := http_sent st0 @ [weather_request demo_key sochi]\<rparr>)"
    by (rule get_weather_404_result [where r = "demo_response 404 ''Not Found'' None"])
      (simp_all add: demo_world_def demo_response_def)
  have h1: "message (demo_update TextMessage [] ?t) = Some ?t"
    by (simp add: demo_update_def)
  have h2: "fst (get_weather ?W demo_key (strip ?t) st0) = Inr (city_not_found sochi)"
    unfolding s by (simp add: gw)
  have h3: "send_error ?W \<lparr>reply_body = city_not_found sochi, parse_mode = ''HTML'',
      reply_markup = None\<rparr> = None"
    by (simp add: demo_world_def)
  note handle_message_records_city
    [OF h1 h2 h3, of "\<lparr>args = [], user_data = Map.empty\<rparr>", unfolded s]
  then show ?thesis
    using h1 h3 gw by (simp add: sochi_def)
qed

text \<open>
  Claim C10 as stated fails when the reply raises: line 147 comes before line 148, so
  with the chat platform out of reach the lookup is made and \<open>last_city\<close> stays unset.
\<close>

theorem handle_message_failed_reply_no_city:
  "message (demo_update TextMessage [] sochi) = Some sochi
   \<and> strip sochi = sochi
   \<and> fst (get_weather
           (demo_world_chat (Returned (demo_response 404 ''Not Found'' None)) chat_down)
           demo_key sochi st0) = Inr (city_not_found sochi)
   \<and> fst (handle_message
           (demo_world_chat (Returned (demo_response 404 ''Not Found'' None)) chat_down)
           demo_key (demo_update TextMessage [] sochi)
           \<lparr>args = [], user_data = Map.empty\<rparr> st0)
       = Inl (TelegramError (ascii ''Timed out''))
   \<and> user_data (fst (snd (handle_message
           (demo_world_chat (Returned (demo_response 404 ''Not Found'' None)) chat_down)
           demo_key (demo_update TextMessage [] sochi)
           \<lparr>args = [], user_data = Map.empty\<rparr> st0))) ''last_city'' = None"
proof -
  let ?W = "demo_world_chat (Returned (demo_response 404 ''Not Found'' None)) chat_down"
  have s: "strip sochi = sochi"
    by (simp add: strip_def sochi_def py_isspace_def)
  have gw: "get_weather ?W demo_key sochi st0
      = (Inr (city_not_found sochi),
         st0\<lparr>http_sent := http_sent st0 @ [weather_request demo_key sochi]\<rparr>)"
    by (rule get_weather_404_result [where r = "demo_response 404 ''Not Found'' None"])
      (simp_all add: demo_world_chat_def demo_world_def demo_response_def)
  have se: "send_error ?W = chat_down"
    by (simp add: demo_world_chat_def)
  show ?thesis
    by (simp add: handle_message_def demo_update_def s gw reply_text_def se chat_down_def)
qed

section \<open>Start-up: claims\<close>

text \<open>
  Claim C7. When \<open>API_KEY\<close> or \<open>TG_KEY\<close> is absent from the environment that the module
  reads, the script stops with a \<open>ValueError\<close> and nothing has happened: no request
  sent, no reply sent, no thread started, no update handled, no session touched.
\<close>

theorem missing_secret_stops_startup:
  assumes "load_dotenv dotenv environ ''API_KEY'' = None
         \<or> load_dotenv dotenv environ ''TG_KEY'' = None"
  shows "program W dotenv environ updates st = (Inl (ValueError no_api_key), st)
       \<or> program W dotenv environ updates st = (Inl (ValueError no_tg_key), st)"
  using assms by (auto simp: program_def module_init_def Let_def truthy_def)

theorem missing_secret_stops_startup_witness:
  "load_dotenv Map.empty [''API_KEY'' \<mapsto> demo_key] ''TG_KEY'' = None
   \<and> program (demo_world (Returned (demo_response 200 ''OK'' (Some demo_weather))))
       Map.empty [''API_KEY'' \<mapsto> demo_key] [demo_update TextMessage [] sochi] st0
     = (Inl (ValueError no_tg_key), st0)"
  using missing_secret_stops_startup
    [where dotenv = Map.empty and environ = "[''API_KEY'' \<mapsto> demo_key]"
       and W = "demo_world (Returned (demo_response 200 ''OK'' (Some demo_weather)))"
       and updates = "[demo_update TextMessage [] sochi]" and st = st0]
  by (simp add: load_dotenv_def program_def module_init_def truthy_def demo_key_def ascii_def)

text \<open>
  With both keys present the script does run: the Flask thread logs its port, the main
  thread logs the start of the bot, and the same update is handled, with one request
  sent and one reply.
\<close>

lemma startup_with_secrets_example:
  "fst (program (demo_world (Returned (demo_response 404 ''Not Found'' None)))
       Map.empty [''API_KEY'' \<mapsto> demo_key, ''TG_KEY'' \<mapsto> demo_key]
       [demo_update TextMessage [] sochi] st0) = Inr ()
   \<and> http_sent (snd (program (demo_world (Returned (demo_response 404 ''Not Found'' None)))
       Map.empty [''API_KEY'' \<mapsto> demo_key, ''TG_KEY'' \<mapsto> demo_key]
       [demo_update TextMessage [] sochi] st0)) = [weather_request demo_key sochi]
   \<and> chat_out (snd (program (demo_world (Returned (demo_response 404 ''Not Found'' None)))
       Map.empty [''API_KEY'' \<mapsto> demo_key, ''TG_KEY'' \<mapsto> demo_key]
       [demo_update TextMessage [] sochi] st0))
      = [\<lparr>reply_body = city_not_found sochi, parse_mode = ''HTML'', reply_markup = None\<rparr>]
   \<and> logs (snd (program (demo_world (Returned (demo_response 404 ''Not Found'' None)))
       Map.empty [''API_KEY'' \<mapsto> demo_key, ''TG_KEY'' \<mapsto> demo_key]
       [demo_update TextMessage [] sochi] st0))
      = [(INFO, starting_flask 10000), (INFO, starting_bot), (INFO, user_asked 42 sochi)]"
proof -
  let ?W = "demo_world (Returned (demo_response 404 ''Not Found'' None))"
  let ?s = "logger_info starting_bot
              (logger_info (starting_flask 10000) (st0\<lparr>flask_started := True\<rparr>))"
  have s: "strip sochi = sochi"
    by (simp add: strip_def sochi_def py_isspace_def)
  have gw: "get_weather ?W demo_key sochi st
      = (Inr (city_not_found sochi),
         st\<lparr>http_sent := http_sent st @ [weather_request demo_key sochi]\<rparr>)" for st
    by (rule get_weather_404_result [where r = "demo_response 404 ''Not Found'' None"])
      (simp_all add: demo_world_def demo_response_def)
  have se: "send_error ?W = (\<lambda>r. None)"
    by (simp add: demo_world_def)
  have k: "demo_key \<noteq> []"
    by (simp add: demo_key_def ascii_def)
  have "program ?W Map.empty [''API_KEY'' \<mapsto> demo_key, ''TG_KEY'' \<mapsto> demo_key]
       [demo_update TextMessage [] sochi] st0
     = (Inr (), dispatch ?W demo_key (demo_update TextMessage [] sochi) ?s)"
    by (simp add: program_def module_init_def load_dotenv_def truthy_def k main_def
        run_flask_def)
  then show ?thesis
    by (simp add: dispatch_def demo_update_def handle_message_def s gw reply_text_def se
        logger_info_def st0_def)
qed

end
